theory Spec2Isabelle
  imports Complex_Main "HOL-Library.Word" "HOL-Library.Signed_Division" "HOL-Library.Log_Nat"
begin

unbundle bit_operations_syntax

section \<open>The SDL2 gamepad adapter of the PAD plugin (SDL2Gamepad.cpp)\<close>

text \<open>
  The development embeds \<^verbatim>\<open>pcsx2/PAD/Linux/Devices/SDL2Gamepad.cpp\<close>: the enumeration
  routine, the constructor and destructor of \<^verbatim>\<open>SDL2Gamepad\<close>, the binding table, the
  rumble entry point and the input translator. The SDL library is an external
  collaborator: every call into it is recorded in an event trace, and every value it
  returns is read from a record of answers (\<open>sdl\<close>). A null pointer is \<open>None\<close>.
\<close>

subsection \<open>Handles and haptic effect descriptors\<close>

datatype SDL_GameController = GameController nat

datatype SDL_Joystick = Joystick nat

datatype SDL_Haptic = Haptic nat

text \<open>
  \<^verbatim>\<open>memset(&effect, 0, sizeof(SDL_HapticEffect))\<close> leaves every field zero; the type tag
  zero is no SDL effect type and is written \<open>HAPTIC_TYPE_ZERO\<close>.
\<close>

datatype haptic_type = HAPTIC_TYPE_ZERO | SDL_HAPTIC_SINE | SDL_HAPTIC_TRIANGLE

datatype direction_type = SDL_HAPTIC_POLAR

record SDL_HapticDirection =
  direction_type :: direction_type
  direction_dir0 :: int

record SDL_HapticEffect =
  effect_type :: haptic_type
  periodic_direction :: SDL_HapticDirection
  periodic_period :: int
  periodic_magnitude :: int
  periodic_offset :: int
  periodic_phase :: int
  periodic_length :: int
  periodic_delay :: int
  periodic_attack_length :: int

subsection \<open>Configuration, compile-time constants and the answers of SDL\<close>

text \<open>
  \<open>g_conf\<close>: the sensibility and force-feedback intensity getters and the per-pad
  force-feedback flags (\<^verbatim>\<open>g_conf.pad_options[pad].forcefeedback\<close>), and the user's
  extra mapping strings.
\<close>

record PADconf =
  get_sensibility :: int
  get_ff_intensity :: int
  pad_options_forcefeedback :: "bool list"
  sdl2_mapping :: "string list"

text \<open>
  Constants and tables that the file takes from headers (\<^verbatim>\<open>SDL2Gamepad.h\<close>,
  \<^verbatim>\<open>Device.h\<close>, the key enumeration, \<^verbatim>\<open>SDL_version.h\<close>); they are parameters here.
  \<open>Device_deadzone\<close> is the dead zone the base class gives a new device.
\<close>

record build =
  NB_EFFECT :: nat
  MAX_KEYS :: nat
  sdl2_defaults :: "(nat \<times> int) list"
  IsAnalogKey :: "nat \<Rightarrow> bool"
  PAD_L2 :: nat
  PAD_R2 :: nat
  Device_deadzone :: int
  SDL_MINOR_VERSION :: nat

text \<open>
  What the SDL calls of the file return. \<open>SDL_HapticNewEffect\<close> is asked with the haptic
  handle, the descriptor and the number of effects the constructor has uploaded before.
\<close>

record sdl =
  SDL_WasInit :: "32 word"
  SDL_Init :: int
  SDL_NumJoysticks :: int
  SDL_IsGameController :: "int \<Rightarrow> bool"
  SDL_GameControllerOpen :: "int \<Rightarrow> SDL_GameController option"
  SDL_GameControllerGetJoystick :: "SDL_GameController option \<Rightarrow> SDL_Joystick option"
  SDL_JoystickOpen :: "int \<Rightarrow> SDL_Joystick option"
  SDL_JoystickGetGUIDString :: "SDL_Joystick \<Rightarrow> string"
  SDL_JoystickNameForIndex :: "int \<Rightarrow> string"
  SDL_JoystickIsHaptic :: "SDL_Joystick \<Rightarrow> bool"
  SDL_HapticOpenFromJoystick :: "SDL_Joystick \<Rightarrow> SDL_Haptic option"
  SDL_HapticNewEffect :: "SDL_Haptic option \<Rightarrow> SDL_HapticEffect \<Rightarrow> nat \<Rightarrow> int"
  SDL_HapticRunEffect :: "SDL_Haptic \<Rightarrow> int \<Rightarrow> nat \<Rightarrow> int"
  SDL_GameControllerGetAxis :: "SDL_GameController option \<Rightarrow> int \<Rightarrow> 16 word"
  SDL_GameControllerGetButton :: "SDL_GameController option \<Rightarrow> int \<Rightarrow> 8 word"
  hash_me :: "string \<Rightarrow> nat"

subsection \<open>The trace of back-end calls and log lines\<close>

datatype log_msg =
  Failed_to_open_joystick int
  | Joystick_not_yet_supported string string
  | Effect_is_not_uploaded
  | Effect_is_not_working int
  | Controller_detected string bool string

datatype event =
  Call_SetHint_ALLOW_BACKGROUND_EVENTS
  | Call_Init "32 word"
  | Call_sigaction_SIGINT_SIG_DFL
  | Call_sigaction_SIGTERM_SIG_DFL
  | Call_JoystickEventState_QUERY
  | Call_GameControllerEventState_QUERY
  | Call_EventState_CONTROLLERDEVICEADDED_ENABLE
  | Call_EventState_CONTROLLERDEVICEREMOVED_ENABLE
  | Call_GameControllerAddMappingsFromRW
  | Call_GameControllerAddMapping string
  | Call_GameControllerOpen int
  | Call_JoystickOpen int
  | Call_JoystickClose SDL_Joystick
  | Call_HapticOpenFromJoystick SDL_Joystick
  | Call_HapticNewEffect "SDL_Haptic option" SDL_HapticEffect
  | Call_HapticRunEffect SDL_Haptic int nat
  | Call_HapticDestroyEffect SDL_Haptic int
  | Call_HapticClose SDL_Haptic
  | Call_GameControllerClose SDL_GameController
  | Log_stderr log_msg
  | Log_stdout log_msg

text \<open>The calls into the haptic back-end; the teardown calls are the last two.\<close>

fun is_haptic_call :: "event \<Rightarrow> bool" where
  "is_haptic_call (Call_HapticOpenFromJoystick j) = True"
| "is_haptic_call (Call_HapticNewEffect h eff) = True"
| "is_haptic_call (Call_HapticRunEffect h eid n) = True"
| "is_haptic_call (Call_HapticDestroyEffect h eid) = True"
| "is_haptic_call (Call_HapticClose h) = True"
| "is_haptic_call e = False"

subsection \<open>The device\<close>

datatype api_tag = NO_API | SDL_AUTO

datatype type_tag = NO_DEVICE | OTHER

record SDL2Gamepad =
  m_unique_id :: nat
  m_device_name :: string
  api :: api_tag
  device_type :: type_tag
  m_deadzone :: int
  m_no_error :: bool
  m_controller :: "SDL_GameController option"
  m_haptic :: "SDL_Haptic option"
  m_effects_id :: "int list"
  m_bindings :: "int list"

record DeviceManager =
  devices :: "SDL2Gamepad list"

text \<open>
  The member arrays \<open>m_effects_id\<close> and \<open>m_bindings\<close> of a new object are not initialized
  before the constructor body runs: their contents are indeterminate. \<open>fresh_storage\<close>
  stands for what the object's memory happens to hold at each position of the two
  arrays.
\<close>

record fresh_storage =
  fresh_effects_id :: "nat \<Rightarrow> int"
  fresh_bindings :: "nat \<Rightarrow> int"

definition Device_base :: "build \<Rightarrow> fresh_storage \<Rightarrow> SDL2Gamepad" where
  \<comment> \<open>Modelled from the spec: the base-class constructor \<open>Device()\<close> and the array
      members' declarations are in headers that are not among the sources. The spec's
      \<open>initialized_ok\<close> starts false and is set only when construction fully succeeded;
      \<open>effects_id\<close> has one entry per effect slot and \<open>bindings\<close> one per logical input.
      The arrays hold the indeterminate contents of the object's memory.\<close>
  "Device_base b mem =
     \<lparr> m_unique_id = 0, m_device_name = [], api = NO_API, device_type = NO_DEVICE,
       m_deadzone = Device_deadzone b, m_no_error = False,
       m_controller = None, m_haptic = None,
       m_effects_id = map (fresh_effects_id mem) [0..<NB_EFFECT b],
       m_bindings = map (fresh_bindings mem) [0..<MAX_KEYS b] \<rparr>"

definition IsProperlyInitialized :: "SDL2Gamepad \<Rightarrow> bool" where
  \<comment> \<open>Modelled from the spec: the accessor is defined in the header \<open>Device.h\<close>; the
      enumeration drops a device whose \<open>initialized_ok\<close> is false.\<close>
  "IsProperlyInitialized d = m_no_error d"

text \<open>\<^verbatim>\<open>std::array::fill\<close>: every entry becomes the value, the size stays.\<close>

definition fill :: "'a \<Rightarrow> 'a list \<Rightarrow> 'a list" where
  "fill v xs = map (\<lambda>_. v) xs"

subsection \<open>The binding table\<close>

definition ClearBindings :: "SDL2Gamepad \<Rightarrow> SDL2Gamepad" where
  "ClearBindings d = d\<lparr> m_bindings := fill 0 (m_bindings d) \<rparr>"

text \<open>
  The loop \<^verbatim>\<open>for (auto& default_bind : sdl2_defaults) m_bindings[first] = second\<close>,
  in the table's order. A key outside the array is undefined behaviour in C++ and
  changes nothing here; the theorems about the contents of the binding table ask
  that the keys of the hardcoded table are in range (\<open>defaults_in_range\<close>).
\<close>

fun set_default_binds :: "(nat \<times> int) list \<Rightarrow> int list \<Rightarrow> int list" where
  "set_default_binds [] bs = bs"
| "set_default_binds (default_bind # rest) bs =
     set_default_binds rest (bs[fst default_bind := snd default_bind])"

definition ResetBindingsToDefault :: "build \<Rightarrow> SDL2Gamepad \<Rightarrow> SDL2Gamepad" where
  "ResetBindingsToDefault b d =
     d\<lparr> m_bindings := set_default_binds (sdl2_defaults b) (m_bindings d) \<rparr>"

definition defaults_in_range :: "build \<Rightarrow> bool" where
  "defaults_in_range b = list_all (\<lambda>default_bind. fst default_bind < MAX_KEYS b) (sdl2_defaults b)"

subsection \<open>Destruction\<close>

fun destroy_effects :: "SDL_Haptic \<Rightarrow> int list \<Rightarrow> event list" where
  "destroy_effects h [] = []"
| "destroy_effects h (eid # eids) =
     (if eid \<ge> 0 then [Call_HapticDestroyEffect h eid] else []) @ destroy_effects h eids"

definition SDL2Gamepad_dtor :: "build \<Rightarrow> SDL2Gamepad \<Rightarrow> event list" where
  "SDL2Gamepad_dtor b d =
     (case m_haptic d of
        None \<Rightarrow> []
      | Some h \<Rightarrow> destroy_effects h (m_effects_id d) @ [Call_HapticClose h])
     @
     (case m_controller d of
        None \<Rightarrow> []
      | Some c \<Rightarrow> if SDL_MINOR_VERSION b \<ge> 4 then [Call_GameControllerClose c] else [])"

subsection \<open>Rumble\<close>

text \<open>
  The result is the device after the call and the trace of the call. \<open>None\<close> is the
  undefined behaviour of reading \<^verbatim>\<open>g_conf.pad_options[pad]\<close> outside the array.
\<close>

definition Rumble ::
  "PADconf \<Rightarrow> sdl \<Rightarrow> SDL2Gamepad \<Rightarrow> nat \<Rightarrow> nat \<Rightarrow> (SDL2Gamepad \<times> event list) option" where
  "Rumble conf s d type pad =
     (if type \<ge> length (m_effects_id d) then Some (d, [])
      else if pad \<ge> length (pad_options_forcefeedback conf) then None
      else if \<not> (pad_options_forcefeedback conf ! pad) then Some (d, [])
      else case m_haptic d of
        None \<Rightarrow> Some (d, [])
      | Some h \<Rightarrow>
          let eid = m_effects_id d ! type in
          if SDL_HapticRunEffect s h eid 1 \<noteq> 0
          then Some (d, [Call_HapticRunEffect h eid 1, Log_stderr (Effect_is_not_working eid)])
          else Some (d, [Call_HapticRunEffect h eid 1]))"

subsection \<open>Construction\<close>

text \<open>The body of the loop that fills \<^verbatim>\<open>effects[i]\<close>.\<close>

definition default_effect :: "PADconf \<Rightarrow> nat \<Rightarrow> SDL_HapticEffect" where
  "default_effect conf i =
     \<lparr> effect_type = (if i = 0 then SDL_HAPTIC_SINE else SDL_HAPTIC_TRIANGLE),
       periodic_direction = \<lparr> direction_type = SDL_HAPTIC_POLAR, direction_dir0 = 18000 \<rparr>,
       periodic_period = 10,
       periodic_magnitude = sint (word_of_int (get_ff_intensity conf) :: 16 word),
       periodic_offset = 0,
       periodic_phase = 18000,
       periodic_length = 125,
       periodic_delay = 0,
       periodic_attack_length = 0 \<rparr>"

definition default_effects :: "build \<Rightarrow> PADconf \<Rightarrow> SDL_HapticEffect list" where
  "default_effects b conf = map (default_effect conf) [0..<NB_EFFECT b]"

text \<open>
  The loop \<^verbatim>\<open>for (auto& eid : m_effects_id)\<close> of the constructor: each slot takes the
  id that \<^verbatim>\<open>SDL_HapticNewEffect(m_haptic, &effects[0])\<close> returns; the first negative
  id ends the loop and clears the haptic handle. The result is the new table, whether
  the handle is kept, and the trace. \<open>n\<close> counts the slots already done.
\<close>

fun upload_effects ::
  "sdl \<Rightarrow> SDL_Haptic option \<Rightarrow> SDL_HapticEffect list \<Rightarrow> nat \<Rightarrow> int list \<Rightarrow>
     int list \<times> bool \<times> event list" where
  "upload_effects s h effects n [] = ([], True, [])"
| "upload_effects s h effects n (old # rest) =
     (let eid = SDL_HapticNewEffect s h (effects ! 0) n in
      if eid < 0
      then (eid # rest, False,
            [Call_HapticNewEffect h (effects ! 0), Log_stderr Effect_is_not_uploaded])
      else (case upload_effects s h effects (Suc n) rest of
              (ids, kept, tr) \<Rightarrow> (eid # ids, kept, Call_HapticNewEffect h (effects ! 0) # tr)))"

definition SDL2Gamepad_ctor ::
  "build \<Rightarrow> PADconf \<Rightarrow> sdl \<Rightarrow> fresh_storage \<Rightarrow> int \<Rightarrow> SDL2Gamepad \<times> event list" where
  "SDL2Gamepad_ctor b conf s mem index =
     (let d0 = (Device_base b mem)\<lparr> m_controller := None, m_haptic := None,
                                 api := SDL_AUTO, device_type := OTHER \<rparr>;
          d1 = d0\<lparr> m_effects_id := fill (- 1) (m_effects_id d0) \<rparr>;
          d2 = ResetBindingsToDefault b (ClearBindings d1);
          d3 = (if SDL_IsGameController s index
                then d2\<lparr> m_controller := SDL_GameControllerOpen s index \<rparr>
                else d2);
          joy = (if SDL_IsGameController s index
                 then SDL_GameControllerGetJoystick s (m_controller d3)
                 else SDL_JoystickOpen s index);
          tr_open = (if SDL_IsGameController s index
                     then [Call_GameControllerOpen index] else [Call_JoystickOpen index])
      in case joy of
        None \<Rightarrow> (d3, tr_open @ [Log_stderr (Failed_to_open_joystick index)])
      | Some j \<Rightarrow>
          let guid = SDL_JoystickGetGUIDString s j;
              d4 = d3\<lparr> m_device_name := SDL_JoystickNameForIndex s index \<rparr>
          in if m_controller d4 = None
             then (d4, tr_open
                       @ [Log_stderr (Joystick_not_yet_supported (m_device_name d4) guid)]
                       @ (if SDL_MINOR_VERSION b \<ge> 4 then [Call_JoystickClose j] else []))
             else
               let d5 = d4\<lparr> m_unique_id := hash_me s guid \<rparr>;
                   effects = default_effects b conf;
                   (d6, tr_haptic) =
                     (if SDL_JoystickIsHaptic s j
                      then
                        let h = SDL_HapticOpenFromJoystick s j in
                        case upload_effects s h effects 0 (m_effects_id d5) of
                          (ids, kept, tr) \<Rightarrow>
                            (d5\<lparr> m_haptic := (if kept then h else None),
                                 m_effects_id := ids \<rparr>,
                             Call_HapticOpenFromJoystick j # tr)
                      else (d5, []))
               in (d6\<lparr> m_no_error := True \<rparr>,
                   tr_open @ tr_haptic
                   @ [Log_stdout (Controller_detected (m_device_name d6) (m_haptic d6 \<noteq> None) guid)]))"

subsection \<open>Enumeration\<close>

definition SDL_INIT_JOYSTICK :: "32 word" where "SDL_INIT_JOYSTICK = 0x200"

definition SDL_INIT_HAPTIC :: "32 word" where "SDL_INIT_HAPTIC = 0x1000"

definition SDL_INIT_GAMECONTROLLER :: "32 word" where "SDL_INIT_GAMECONTROLLER = 0x2000"

definition SDL_INIT_EVENTS :: "32 word" where "SDL_INIT_EVENTS = 0x4000"

definition flag :: "32 word" where
  "flag = SDL_INIT_JOYSTICK OR SDL_INIT_HAPTIC OR SDL_INIT_EVENTS OR SDL_INIT_GAMECONTROLLER"

text \<open>
  The values that \<open>i\<close> takes in \<^verbatim>\<open>for (int i = 0; i < SDL_NumJoysticks(); ++i)\<close>: none
  when the count is not positive.
\<close>

definition joystick_indices :: "sdl \<Rightarrow> int list" where
  "joystick_indices s = map int [0..<nat (SDL_NumJoysticks s)]"

text \<open>
  The body of that loop, over the indices still to do: the new device is pushed, and
  popped (and so destroyed) when it is not properly initialized. \<open>mem i\<close> is the fresh
  storage of the object that is constructed for index \<open>i\<close>.
\<close>

fun enumerate_devices ::
  "build \<Rightarrow> PADconf \<Rightarrow> sdl \<Rightarrow> (int \<Rightarrow> fresh_storage) \<Rightarrow> int list \<Rightarrow>
     SDL2Gamepad list \<times> event list \<Rightarrow>
     SDL2Gamepad list \<times> event list" where
  "enumerate_devices b conf s mem [] acc = acc"
| "enumerate_devices b conf s mem (i # is) (devs, tr) =
     (case SDL2Gamepad_ctor b conf s (mem i) i of
        (d, tr_ctor) \<Rightarrow>
          let pushed = devs @ [d] in
          if \<not> IsProperlyInitialized (last pushed)
          then enumerate_devices b conf s mem is
                 (butlast pushed, tr @ tr_ctor @ SDL2Gamepad_dtor b (last pushed))
          else enumerate_devices b conf s mem is (pushed, tr @ tr_ctor))"

definition EnumerateSDL2 ::
  "build \<Rightarrow> PADconf \<Rightarrow> sdl \<Rightarrow> (int \<Rightarrow> fresh_storage) \<Rightarrow> DeviceManager \<Rightarrow>
     DeviceManager \<times> event list" where
  "EnumerateSDL2 b conf s mem device_manager =
     (let first_time = ((SDL_WasInit s AND flag) \<noteq> flag)
      in if first_time \<and> SDL_Init s < 0
         then (device_manager, [Call_SetHint_ALLOW_BACKGROUND_EVENTS, Call_Init flag])
         else
           let tr_init =
                 (if first_time
                  then [Call_SetHint_ALLOW_BACKGROUND_EVENTS, Call_Init flag,
                        Call_sigaction_SIGINT_SIG_DFL, Call_sigaction_SIGTERM_SIG_DFL,
                        Call_JoystickEventState_QUERY, Call_GameControllerEventState_QUERY,
                        Call_EventState_CONTROLLERDEVICEADDED_ENABLE,
                        Call_EventState_CONTROLLERDEVICEREMOVED_ENABLE,
                        Call_GameControllerAddMappingsFromRW]
                       @ map Call_GameControllerAddMapping (sdl2_mapping conf)
                  else []);
               tr_clear = concat (map (SDL2Gamepad_dtor b) (devices device_manager));
               cleared = device_manager\<lparr> devices := [] \<rparr>
           in case enumerate_devices b conf s mem (joystick_indices s)
                     (devices cleared, tr_init @ tr_clear) of
                (devs, tr) \<Rightarrow> (cleared\<lparr> devices := devs \<rparr>, tr))"

text \<open>
  The first-time initialization of the subsystems fails: some subsystem is not yet
  initialized and \<^verbatim>\<open>SDL_Init(flag)\<close> returns a negative value.
\<close>

definition init_fails :: "sdl \<Rightarrow> bool" where
  "init_fails s = ((SDL_WasInit s AND flag) \<noteq> flag \<and> SDL_Init s < 0)"

text \<open>What the registry's invariant asks of a device.\<close>

definition usable :: "SDL2Gamepad \<Rightarrow> bool" where
  "usable d = (m_no_error d \<and> m_controller d \<noteq> None)"

subsection \<open>C arithmetic of the input translator\<close>

text \<open>
  \<^verbatim>\<open>float\<close> and \<^verbatim>\<open>double\<close> values are the rationals they denote. An operation's result
  is the exact result rounded to \<open>p\<close> significant bits, to nearest with ties to even
  (\<open>p = 24\<close> for \<^verbatim>\<open>float\<close>, \<open>p = 53\<close> for \<^verbatim>\<open>double\<close>), each operation in the format of
  its operands. The exponent range is not bounded: no value computed from a 32-bit
  sensibility and a 16-bit axis comes near the overflow or underflow threshold of
  either format.
\<close>

definition ilog2 :: "rat \<Rightarrow> int" where
  \<comment> \<open>the binade of a non-zero \<open>x\<close>: \<open>2 powi ilog2 x \<le> \<bar>x\<bar> < 2 powi (ilog2 x + 1)\<close>\<close>
  "ilog2 x =
     (case quotient_of \<bar>x\<bar> of
        (a, b) \<Rightarrow>
          let e = bitlen a - bitlen b
          in if 2 powi e \<le> \<bar>x\<bar> then e else e - 1)"

definition round_half_even :: "rat \<Rightarrow> int" where
  "round_half_even q =
     (let f = \<lfloor>q\<rfloor>; r = q - of_int f
      in if r < 1 / 2 then f
         else if 1 / 2 < r then f + 1
         else if even f then f else f + 1)"

definition round_to_precision :: "nat \<Rightarrow> rat \<Rightarrow> rat" where
  "round_to_precision p x =
     (if x = 0 then 0
      else let ulp = 2 powi (ilog2 x - int p + 1)
           in of_int (round_half_even (x / ulp)) * ulp)"

definition to_float :: "rat \<Rightarrow> rat" where
  "to_float x = round_to_precision 24 x"

definition to_double :: "rat \<Rightarrow> rat" where
  "to_double x = round_to_precision 53 x"

text \<open>
  Conversion of a floating value to \<^verbatim>\<open>int\<close> truncates toward zero and is undefined
  when the truncated value is no 32-bit \<^verbatim>\<open>int\<close>; \<^verbatim>\<open>abs\<close> is undefined at \<^verbatim>\<open>INT_MIN\<close>.
\<close>

definition truncate_toward_zero :: "rat \<Rightarrow> int" where
  "truncate_toward_zero x = (if 0 \<le> x then \<lfloor>x\<rfloor> else \<lceil>x\<rceil>)"

definition float_to_int :: "rat \<Rightarrow> int option" where
  "float_to_int x =
     (let t = truncate_toward_zero x
      in if - (2 ^ 31) \<le> t \<and> t < 2 ^ 31 then Some t else None)"

definition c_abs :: "int \<Rightarrow> int option" where
  "c_abs v = (if v = - (2 ^ 31) then None else Some \<bar>v\<bar>)"

text \<open>\<^verbatim>\<open>float k = g_conf.get_sensibility() / 100.0\<close>: a division of doubles, stored in a float.\<close>

definition sensibility_factor :: "PADconf \<Rightarrow> rat" where
  "sensibility_factor conf = to_float (to_double (to_double (of_int (get_sensibility conf)) / 100))"

text \<open>\<^verbatim>\<open>value *= k\<close> on an \<^verbatim>\<open>int value\<close>: the product of floats, converted back to \<^verbatim>\<open>int\<close>.\<close>

definition scale_by :: "rat \<Rightarrow> int \<Rightarrow> int option" where
  "scale_by k v = float_to_int (to_float (to_float (of_int v) * k))"

subsection \<open>The input translator\<close>

text \<open>
  \<open>None\<close> is undefined behaviour: a read of \<^verbatim>\<open>m_bindings[input]\<close> outside the table,
  an overflowing conversion to \<^verbatim>\<open>int\<close>, or \<^verbatim>\<open>abs(INT_MIN)\<close>.
\<close>

definition GetInput :: "build \<Rightarrow> PADconf \<Rightarrow> sdl \<Rightarrow> SDL2Gamepad \<Rightarrow> nat \<Rightarrow> int option" where
  "GetInput b conf s d input =
     (let k = sensibility_factor conf
      in if input \<ge> length (m_bindings d) then None
         else if IsAnalogKey b input then
           (case scale_by k (sint (SDL_GameControllerGetAxis s (m_controller d) (m_bindings d ! input))) of
              None \<Rightarrow> None
            | Some v \<Rightarrow>
                (case c_abs v of
                   None \<Rightarrow> None
                 | Some a \<Rightarrow> Some (if a > m_deadzone d then v else 0)))
         else if input = PAD_L2 b \<or> input = PAD_R2 b then
           (let v = sint (SDL_GameControllerGetAxis s (m_controller d) (m_bindings d ! input))
            in Some (if v > m_deadzone d then v sdiv 128 else 0))
         else
           (let v = SDL_GameControllerGetButton s (m_controller d) (m_bindings d ! input)
            in Some (if v \<noteq> 0 then 0xFF else 0)))"

text \<open>The raw signed value of the axis that is bound to a logical input.\<close>

definition raw_axis :: "sdl \<Rightarrow> SDL2Gamepad \<Rightarrow> nat \<Rightarrow> int" where
  "raw_axis s d input = sint (SDL_GameControllerGetAxis s (m_controller d) (m_bindings d ! input))"

subsection \<open>Example values\<close>

text \<open>
  A build with two effect slots and 24 logical inputs (the two triggers first, the
  eight stick directions last), against SDL 2.0.x, whose minor version number is 0;
  a configuration; an SDL that knows one haptic game controller at index 0 and one
  joystick without a mapping at index 1; and fresh storage that holds non-zero values.
\<close>

definition example_build :: build where
  "example_build =
     \<lparr> NB_EFFECT = 2, MAX_KEYS = 24,
       sdl2_defaults = [(0, 4), (1, 5), (2, 9), (3, 10), (16, 1), (17, 0), (20, 3), (21, 2)],
       IsAnalogKey = (\<lambda>key. 16 \<le> key \<and> key \<le> 23),
       PAD_L2 = 0, PAD_R2 = 1, Device_deadzone = 1500, SDL_MINOR_VERSION = 0 \<rparr>"

definition example_conf :: PADconf where
  "example_conf =
     \<lparr> get_sensibility = 100, get_ff_intensity = 0x7FFF,
       pad_options_forcefeedback = [True, False], sdl2_mapping = [] \<rparr>"

definition example_sdl :: sdl where
  "example_sdl =
     \<lparr> SDL_WasInit = 0, SDL_Init = 0, SDL_NumJoysticks = 2,
       SDL_IsGameController = (\<lambda>i. i = 0),
       SDL_GameControllerOpen = (\<lambda>i. if i = 0 then Some (GameController 0) else None),
       SDL_GameControllerGetJoystick = (\<lambda>c. case c of None \<Rightarrow> None | Some (GameController n) \<Rightarrow> Some (Joystick n)),
       SDL_JoystickOpen = (\<lambda>i. if i = 1 then Some (Joystick 1) else None),
       SDL_JoystickGetGUIDString = (\<lambda>j. ''030000004c050000c405000011010000''),
       SDL_JoystickNameForIndex = (\<lambda>i. ''pad''),
       SDL_JoystickIsHaptic = (\<lambda>j. j = Joystick 0),
       SDL_HapticOpenFromJoystick = (\<lambda>j. Some (Haptic 0)),
       SDL_HapticNewEffect = (\<lambda>h eff n. int n),
       SDL_HapticRunEffect = (\<lambda>h eid n. 0),
       SDL_GameControllerGetAxis = (\<lambda>c axis. - 32768),
       SDL_GameControllerGetButton = (\<lambda>c button. 1),
       hash_me = length \<rparr>"

definition example_memory :: "int \<Rightarrow> fresh_storage" where
  "example_memory index =
     \<lparr> fresh_effects_id = (\<lambda>n. 12345 + int n), fresh_bindings = (\<lambda>n. 77 - int n) \<rparr>"

definition example_sdl_init_fails :: sdl where
  "example_sdl_init_fails = example_sdl\<lparr> SDL_Init := - 1 \<rparr>"

definition example_device :: SDL2Gamepad where
  "example_device = fst (SDL2Gamepad_ctor example_build example_conf example_sdl (example_memory 0) 0)"

text \<open>The descriptors that a trace uploads, in order.\<close>

fun uploaded_effects :: "event list \<Rightarrow> SDL_HapticEffect list" where
  "uploaded_effects [] = []"
| "uploaded_effects (Call_HapticNewEffect h eff # tr) = eff # uploaded_effects tr"
| "uploaded_effects (e # tr) = uploaded_effects tr"

section \<open>Properties\<close>

subsection \<open>The binding table\<close>

lemma fill_replicate: "fill v xs = replicate (length xs) v"
  by (simp add: fill_def map_replicate_const)

lemma length_set_default_binds: "length (set_default_binds ds bs) = length bs"
  by (induction ds arbitrary: bs) simp_all

lemma set_default_binds_other:
  "k \<notin> fst ` set ds \<Longrightarrow> set_default_binds ds bs ! k = bs ! k"
proof (induction ds arbitrary: bs)
  case Nil
  show ?case by simp
next
  case (Cons e ds)
  from Cons.prems have "k \<noteq> fst e" and "k \<notin> fst ` set ds" by auto
  then show ?case using Cons.IH [of "bs[fst e := snd e]"] by simp
qed

lemma set_default_binds_present:
  assumes "(k, v) \<in> set ds" and "\<forall>v'. (k, v') \<in> set ds \<longrightarrow> v' = v" and "k < length bs"
  shows "set_default_binds ds bs ! k = v"
  using assms
proof (induction ds arbitrary: bs)
  case Nil
  then show ?case by simp
next
  case (Cons e ds)
  have len: "k < length (bs[fst e := snd e])"
    using Cons.prems(3) by simp
  have single: "\<forall>v'. (k, v') \<in> set ds \<longrightarrow> v' = v"
    using Cons.prems(2) by simp
  show ?case
  proof (cases "(k, v) \<in> set ds")
    case True
    then have "set_default_binds ds (bs[fst e := snd e]) ! k = v"
      using single len by (rule Cons.IH)
    then show ?thesis by simp
  next
    case False
    with Cons.prems(1) have e: "e = (k, v)" by simp
    have "k \<notin> fst ` set ds"
    proof
      assume "k \<in> fst ` set ds"
      then obtain v' where in_ds: "(k, v') \<in> set ds" by force
      with single have "v' = v" by blast
      with in_ds False show False by simp
    qed
    then have "set_default_binds ds (bs[fst e := snd e]) ! k = (bs[fst e := snd e]) ! k"
      by (rule set_default_binds_other)
    then show ?thesis using e Cons.prems(3) by simp
  qed
qed

lemma defaults_in_rangeD:
  "defaults_in_range b \<Longrightarrow> (k, v) \<in> set (sdl2_defaults b) \<Longrightarrow> k < MAX_KEYS b"
  by (auto simp: defaults_in_range_def list_all_iff)

text \<open>
  C8. After \<open>ClearBindings\<close> every entry of the binding table is 0 (and the table keeps
  its size). After \<open>ResetBindingsToDefault\<close>, for a defaults table whose keys are inside
  the binding table, a logical input \<open>k\<close> that the defaults table lists with the value
  \<open>v\<close> (and with no other value) holds \<open>v\<close>, and every entry whose key the defaults table
  does not list holds the value it had before the call.
\<close>

theorem bindings_clear_then_defaults:
  "m_bindings (ClearBindings d) = replicate (length (m_bindings d)) 0 \<and>
   (defaults_in_range b \<and> length (m_bindings d) = MAX_KEYS b \<longrightarrow>
      length (m_bindings (ResetBindingsToDefault b d)) = MAX_KEYS b \<and>
      ((k, v) \<in> set (sdl2_defaults b) \<and> (\<forall>v'. (k, v') \<in> set (sdl2_defaults b) \<longrightarrow> v' = v)
         \<longrightarrow> m_bindings (ResetBindingsToDefault b d) ! k = v) \<and>
      (k \<notin> fst ` set (sdl2_defaults b)
         \<longrightarrow> m_bindings (ResetBindingsToDefault b d) ! k = m_bindings d ! k))"
proof (intro conjI impI)
  show "m_bindings (ClearBindings d) = replicate (length (m_bindings d)) 0"
    by (simp add: ClearBindings_def fill_replicate)
next
  assume "defaults_in_range b \<and> length (m_bindings d) = MAX_KEYS b"
  then show "length (m_bindings (ResetBindingsToDefault b d)) = MAX_KEYS b"
    by (simp add: ResetBindingsToDefault_def length_set_default_binds)
next
  assume wf: "defaults_in_range b \<and> length (m_bindings d) = MAX_KEYS b"
    and listed: "(k, v) \<in> set (sdl2_defaults b) \<and> (\<forall>v'. (k, v') \<in> set (sdl2_defaults b) \<longrightarrow> v' = v)"
  from wf listed have "k < MAX_KEYS b"
    by (blast intro: defaults_in_rangeD)
  with wf have "k < length (m_bindings d)"
    by simp
  with listed show "m_bindings (ResetBindingsToDefault b d) ! k = v"
    by (simp add: ResetBindingsToDefault_def set_default_binds_present [where v = v])
next
  assume "k \<notin> fst ` set (sdl2_defaults b)"
  then show "m_bindings (ResetBindingsToDefault b d) ! k = m_bindings d ! k"
    by (simp add: ResetBindingsToDefault_def set_default_binds_other)
qed

theorem bindings_clear_then_defaults_witness:
  "m_bindings (ClearBindings example_device) = replicate 24 0 \<and>
   defaults_in_range example_build \<and>
   length (m_bindings example_device) = MAX_KEYS example_build \<and>
   (16, 1) \<in> set (sdl2_defaults example_build) \<and>
   m_bindings (ResetBindingsToDefault example_build (ClearBindings example_device)) ! 16 = 1 \<and>
   5 \<notin> fst ` set (sdl2_defaults example_build) \<and>
   m_bindings (ResetBindingsToDefault example_build (example_device\<lparr>m_bindings := replicate 24 7\<rparr>)) ! 5 = 7"
proof -
  have len: "length (m_bindings example_device) = 24"
    by code_simp
  have keys: "MAX_KEYS example_build = 24"
    and wf: "defaults_in_range example_build"
    and in_table: "(16, 1) \<in> set (sdl2_defaults example_build)"
    and single: "\<forall>v'. (16, v') \<in> set (sdl2_defaults example_build) \<longrightarrow> v' = 1"
    and absent: "5 \<notin> fst ` set (sdl2_defaults example_build)"
    by (simp_all add: example_build_def defaults_in_range_def)
  have len': "length (m_bindings (ClearBindings example_device)) = 24"
    by (simp add: ClearBindings_def fill_replicate len)
  show ?thesis
    using bindings_clear_then_defaults [of example_device example_build 16 1]
      bindings_clear_then_defaults [of "ClearBindings example_device" example_build 16 1]
      bindings_clear_then_defaults [of "example_device\<lparr>m_bindings := replicate 24 7\<rparr>" example_build 5 0]
      wf in_table single absent
    by (simp add: len len' keys)
qed

subsection \<open>Destruction\<close>

lemma destroy_effects_eq:
  "destroy_effects h eids = map (Call_HapticDestroyEffect h) (filter (\<lambda>eid. eid \<ge> 0) eids)"
  by (induction eids) simp_all

text \<open>
  The destructor's trace, for every build and device: when a haptic handle is present,
  one \<open>SDL_HapticDestroyEffect\<close> for each entry of the effects table that is \<open>\<ge> 0\<close>, in
  the table's order, then \<open>SDL_HapticClose\<close>; after that \<open>SDL_GameControllerClose\<close> when
  a controller handle is present and the \<^verbatim>\<open>#if SDL_MINOR_VERSION >= 4\<close> around the call
  holds.
\<close>

lemma dtor_trace:
  "SDL2Gamepad_dtor b d =
     (case m_haptic d of
        None \<Rightarrow> []
      | Some h \<Rightarrow> map (Call_HapticDestroyEffect h) (filter (\<lambda>eid. eid \<ge> 0) (m_effects_id d))
                  @ [Call_HapticClose h])
     @ (case m_controller d of
          None \<Rightarrow> []
        | Some c \<Rightarrow> if SDL_MINOR_VERSION b \<ge> 4 then [Call_GameControllerClose c] else [])"
  by (cases "m_haptic d") (simp_all add: SDL2Gamepad_dtor_def destroy_effects_eq)

lemma dtor_without_haptic:
  "m_haptic d = None \<Longrightarrow> filter is_haptic_call (SDL2Gamepad_dtor b d) = []"
  by (cases "m_controller d") (simp_all add: SDL2Gamepad_dtor_def)

text \<open>
  The comment at the gate reads "Version before 2.0.4 are bugged", but the gate tests
  the minor version number, which is 0 in every SDL 2.0.x release (2.0.4 has patch
  level 4): no build against SDL 2.0.x ever closes a controller.
\<close>

lemma dtor_minor_below_4_never_closes:
  "SDL_MINOR_VERSION b < 4 \<Longrightarrow> Call_GameControllerClose c \<notin> set (SDL2Gamepad_dtor b d)"
  by (cases "m_haptic d"; cases "m_controller d")
    (auto simp: SDL2Gamepad_dtor_def destroy_effects_eq)

text \<open>
  C7 fails on the code. Built against SDL 2.0.x (minor version number 0, which
  includes 2.0.4 and every later 2.0 release), the destructor of a device that holds
  a haptic handle and a controller handle destroys the effects and closes the haptic
  handle, in that order, and then returns: the third release call of the order,
  \<open>SDL_GameControllerClose\<close>, is never made.
\<close>

theorem dtor_skips_controller_close_on_SDL_2_0:
  "SDL_MINOR_VERSION example_build = 0 \<and>
   m_controller example_device = Some (GameController 0) \<and>
   SDL2Gamepad_dtor example_build example_device =
     [Call_HapticDestroyEffect (Haptic 0) 0, Call_HapticDestroyEffect (Haptic 0) 1,
      Call_HapticClose (Haptic 0)]"
  by code_simp

subsection \<open>Rumble\<close>

text \<open>
  C5. A call \<open>Rumble(type, pad)\<close> whose \<open>pad\<close> indexes the per-pad options (it is read
  only when \<open>type\<close> is a slot of the effects table) returns with the device unchanged.
  If the slot is out of range, or the pad's force-feedback flag is off, or the device
  has no haptic handle, the trace is empty. Otherwise the trace starts with the one
  call into the haptic back-end, \<open>SDL_HapticRunEffect\<close> on the handle with the id of
  the slot and 1 iteration; when that call fails the only other event is the log line.
\<close>

theorem Rumble_guards:
  assumes "type < length (m_effects_id d) \<longrightarrow> pad < length (pad_options_forcefeedback conf)"
  shows "\<exists>tr. Rumble conf s d type pad = Some (d, tr) \<and>
     (if type \<ge> length (m_effects_id d) \<or> \<not> pad_options_forcefeedback conf ! pad \<or> m_haptic d = None
      then tr = []
      else \<exists>h. m_haptic d = Some h \<and>
           filter is_haptic_call tr = [Call_HapticRunEffect h (m_effects_id d ! type) 1] \<and>
           tr = Call_HapticRunEffect h (m_effects_id d ! type) 1 #
                (if SDL_HapticRunEffect s h (m_effects_id d ! type) 1 \<noteq> 0
                 then [Log_stderr (Effect_is_not_working (m_effects_id d ! type))] else []))"
  using assms by (auto simp: Rumble_def Let_def split: option.splits)

theorem Rumble_guards_witness:
  "1 < length (m_effects_id example_device) \<and>
   0 < length (pad_options_forcefeedback example_conf) \<and>
   Rumble example_conf example_sdl example_device 1 0 =
     Some (example_device, [Call_HapticRunEffect (Haptic 0) 1 1]) \<and>
   Rumble example_conf (example_sdl\<lparr>SDL_HapticRunEffect := (\<lambda>h eid n. - 1)\<rparr>) example_device 1 0 =
     Some (example_device, [Call_HapticRunEffect (Haptic 0) 1 1, Log_stderr (Effect_is_not_working 1)]) \<and>
   Rumble example_conf example_sdl example_device 1 1 = Some (example_device, []) \<and>
   Rumble example_conf example_sdl example_device 5 7 = Some (example_device, [])"
proof -
  have h: "m_haptic example_device = Some (Haptic 0)"
    and ids: "m_effects_id example_device = [0, 1]"
    by code_simp+
  have flags: "pad_options_forcefeedback example_conf = [True, False]"
    by (simp add: example_conf_def)
  have run: "SDL_HapticRunEffect example_sdl = (\<lambda>h eid n. 0)"
    by (simp add: example_sdl_def)
  show ?thesis
    using Rumble_guards [of 1 example_device 0 example_conf example_sdl]
      Rumble_guards [of 1 example_device 0 example_conf "example_sdl\<lparr>SDL_HapticRunEffect := (\<lambda>h eid n. - 1)\<rparr>"]
      Rumble_guards [of 1 example_device 1 example_conf example_sdl]
      Rumble_guards [of 5 example_device 7 example_conf example_sdl]
    by (auto simp: h ids flags run)
qed

subsection \<open>Enumeration\<close>

lemma init_fails_example: "init_fails example_sdl_init_fails"
  by (simp add: init_fails_def example_sdl_init_fails_def example_sdl_def flag_def
      SDL_INIT_JOYSTICK_def SDL_INIT_HAPTIC_def SDL_INIT_EVENTS_def SDL_INIT_GAMECONTROLLER_def)

text \<open>
  C9, as the code has it. When the first-time initialization of the subsystems fails,
  \<open>EnumerateSDL2\<close> returns after the hint and the \<open>SDL_Init\<close> call, with no log line, and
  the registry is exactly what it was before the call (so it is empty when it was
  empty).
\<close>

theorem Enumerate_init_failure:
  assumes "init_fails s"
  shows "EnumerateSDL2 b conf s mem device_manager =
           (device_manager, [Call_SetHint_ALLOW_BACKGROUND_EVENTS, Call_Init flag])"
  using assms by (simp add: EnumerateSDL2_def init_fails_def)

text \<open>A registry that holds a device before the call still holds it after the failed call.\<close>

theorem Enumerate_init_failure_counterexample:
  "init_fails example_sdl_init_fails \<and>
   devices (fst (EnumerateSDL2 example_build example_conf example_sdl_init_fails example_memory
                   \<lparr>devices = [example_device]\<rparr>)) = [example_device]"
  using init_fails_example by (simp add: init_fails_def EnumerateSDL2_def)

theorem Enumerate_init_failure_witness:
  "init_fails example_sdl_init_fails \<and>
   EnumerateSDL2 example_build example_conf example_sdl_init_fails example_memory \<lparr>devices = []\<rparr> =
     (\<lparr>devices = []\<rparr>, [Call_SetHint_ALLOW_BACKGROUND_EVENTS, Call_Init flag])"
  using init_fails_example
    Enumerate_init_failure [where s = example_sdl_init_fails and b = example_build
      and conf = example_conf and mem = example_memory and device_manager = "\<lparr>devices = []\<rparr>"]
  by simp

subsection \<open>Construction\<close>

lemma ctor_bindings:
  "m_bindings (fst (SDL2Gamepad_ctor b conf s mem i)) =
     m_bindings (ResetBindingsToDefault b (ClearBindings (Device_base b mem)))"
  by (simp add: SDL2Gamepad_ctor_def Let_def ResetBindingsToDefault_def ClearBindings_def
      split: option.splits prod.splits)

lemma ctor_initialized_has_controller:
  "m_no_error (fst (SDL2Gamepad_ctor b conf s mem i)) \<Longrightarrow>
     m_controller (fst (SDL2Gamepad_ctor b conf s mem i)) \<noteq> None"
  by (simp add: SDL2Gamepad_ctor_def Let_def ResetBindingsToDefault_def ClearBindings_def
      Device_base_def split: option.splits prod.splits if_splits)

lemma ctor_failed:
  "\<not> m_no_error (fst (SDL2Gamepad_ctor b conf s mem i)) \<Longrightarrow>
     m_haptic (fst (SDL2Gamepad_ctor b conf s mem i)) = None \<and>
     m_effects_id (fst (SDL2Gamepad_ctor b conf s mem i)) = replicate (NB_EFFECT b) (- 1)"
  by (simp add: SDL2Gamepad_ctor_def Let_def ResetBindingsToDefault_def ClearBindings_def
      Device_base_def fill_replicate split: option.splits prod.splits if_splits)


text \<open>
  C10. Whatever the object's memory held before, every constructed device has the
  binding table that \<open>ClearBindings\<close> and then \<open>ResetBindingsToDefault\<close> leave: the
  defaults (a table whose keys are inside the binding table) written over zeros. A
  device whose construction failed (\<open>m_no_error\<close> is still false: the joystick did not
  open, or it is no game controller) has every entry of its effects table at \<open>- 1\<close> and
  no haptic handle, and its destructor makes no call into the haptic back-end: no
  effect is destroyed and no haptic handle is closed.
\<close>

theorem ctor_failed_device_is_inert:
  "(defaults_in_range b \<longrightarrow>
      m_bindings (fst (SDL2Gamepad_ctor b conf s mem i)) =
        set_default_binds (sdl2_defaults b) (replicate (MAX_KEYS b) 0)) \<and>
   (\<not> m_no_error (fst (SDL2Gamepad_ctor b conf s mem i)) \<longrightarrow>
      m_effects_id (fst (SDL2Gamepad_ctor b conf s mem i)) = replicate (NB_EFFECT b) (- 1) \<and>
      m_haptic (fst (SDL2Gamepad_ctor b conf s mem i)) = None \<and>
      filter is_haptic_call (SDL2Gamepad_dtor b (fst (SDL2Gamepad_ctor b conf s mem i))) = [])"
proof (intro conjI impI)
  show "m_bindings (fst (SDL2Gamepad_ctor b conf s mem i)) =
     set_default_binds (sdl2_defaults b) (replicate (MAX_KEYS b) 0)"
    by (simp add: ctor_bindings ResetBindingsToDefault_def ClearBindings_def Device_base_def
        fill_replicate)
next
  assume failed: "\<not> m_no_error (fst (SDL2Gamepad_ctor b conf s mem i))"
  then show "m_effects_id (fst (SDL2Gamepad_ctor b conf s mem i)) = replicate (NB_EFFECT b) (- 1)"
    and no_haptic: "m_haptic (fst (SDL2Gamepad_ctor b conf s mem i)) = None"
    by (simp_all add: ctor_failed)
  show "filter is_haptic_call (SDL2Gamepad_dtor b (fst (SDL2Gamepad_ctor b conf s mem i))) = []"
    by (cases "m_controller (fst (SDL2Gamepad_ctor b conf s mem i))")
      (simp_all add: SDL2Gamepad_dtor_def no_haptic)
qed

theorem ctor_failed_device_is_inert_witness:
  "defaults_in_range example_build \<and>
   \<not> m_no_error (fst (SDL2Gamepad_ctor example_build example_conf example_sdl (example_memory 1) 1)) \<and>
   m_bindings (fst (SDL2Gamepad_ctor example_build example_conf example_sdl (example_memory 1) 1)) =
     [4, 5, 9, 10, 0, 0, 0, 0, 0, 0, 0, 0, 0, 0, 0, 0, 1, 0, 0, 0, 3, 2, 0, 0] \<and>
   m_effects_id (fst (SDL2Gamepad_ctor example_build example_conf example_sdl (example_memory 1) 1)) = [- 1, - 1] \<and>
   m_haptic (fst (SDL2Gamepad_ctor example_build example_conf example_sdl (example_memory 1) 1)) = None \<and>
   filter is_haptic_call
     (SDL2Gamepad_dtor example_build (fst (SDL2Gamepad_ctor example_build example_conf example_sdl (example_memory 1) 1))) = []"
proof -
  have failed: "\<not> m_no_error (fst (SDL2Gamepad_ctor example_build example_conf example_sdl (example_memory 1) 1))"
    by code_simp
  have table: "set_default_binds (sdl2_defaults example_build) (replicate (MAX_KEYS example_build) 0) =
      [4, 5, 9, 10, 0, 0, 0, 0, 0, 0, 0, 0, 0, 0, 0, 0, 1, 0, 0, 0, 3, 2, 0, 0]"
    by code_simp
  have slots: "replicate (NB_EFFECT example_build) (- 1 :: int) = [- 1, - 1]"
    by code_simp
  have wf: "defaults_in_range example_build"
    by (simp add: example_build_def defaults_in_range_def)
  show ?thesis
    using ctor_failed_device_is_inert [where b = example_build and conf = example_conf
        and s = example_sdl and mem = "example_memory 1" and i = 1] failed wf
    by (simp add: table slots)
qed

subsection \<open>The registry after enumeration\<close>

lemma enumerate_devices_registry:
  "fst (enumerate_devices b conf s mem is (devs, tr)) =
     devs @ filter IsProperlyInitialized (map (\<lambda>i. fst (SDL2Gamepad_ctor b conf s (mem i) i)) is)"
proof (induction "is" arbitrary: devs tr)
  case Nil
  show ?case by simp
next
  case (Cons i "is")
  obtain d tr_ctor where ctor: "SDL2Gamepad_ctor b conf s (mem i) i = (d, tr_ctor)"
    by (cases "SDL2Gamepad_ctor b conf s (mem i) i")
  show ?case
  proof (cases "IsProperlyInitialized d")
    case True
    then show ?thesis using ctor Cons.IH [of "devs @ [d]"] by simp
  next
    case False
    then show ?thesis using ctor Cons.IH [of devs] by simp
  qed
qed

lemma EnumerateSDL2_registry:
  "\<not> init_fails s \<Longrightarrow>
     devices (fst (EnumerateSDL2 b conf s mem device_manager)) =
       filter IsProperlyInitialized (map (\<lambda>i. fst (SDL2Gamepad_ctor b conf s (mem i) i)) (joystick_indices s))"
  by (auto simp add: EnumerateSDL2_def init_fails_def Let_def split_beta enumerate_devices_registry)

text \<open>
  C6. After \<open>EnumerateSDL2\<close> every device of the registry has \<open>m_no_error\<close> true and a
  controller handle. On the path that rebuilds the registry it holds, in index order,
  exactly the constructed devices that are properly initialized: a device whose
  initialization failed is popped in the iteration that pushed it. On the path that
  returns early (the first-time initialization failed) the registry is the one before
  the call, which is asked to satisfy the invariant.
\<close>

theorem Enumerate_registry_usable:
  assumes "init_fails s \<longrightarrow> list_all usable (devices device_manager)"
  shows "list_all usable (devices (fst (EnumerateSDL2 b conf s mem device_manager))) \<and>
    (\<not> init_fails s \<longrightarrow>
       devices (fst (EnumerateSDL2 b conf s mem device_manager)) =
         filter IsProperlyInitialized
           (map (\<lambda>i. fst (SDL2Gamepad_ctor b conf s (mem i) i)) (joystick_indices s)))"
proof (cases "init_fails s")
  case True
  then have "EnumerateSDL2 b conf s mem device_manager =
      (device_manager, [Call_SetHint_ALLOW_BACKGROUND_EVENTS, Call_Init flag])"
    by (simp add: EnumerateSDL2_def init_fails_def)
  with True assms show ?thesis by simp
next
  case False
  have "list_all usable
      (filter IsProperlyInitialized (map (\<lambda>i. fst (SDL2Gamepad_ctor b conf s (mem i) i)) (joystick_indices s)))"
    by (auto simp: list_all_iff usable_def IsProperlyInitialized_def
        dest: ctor_initialized_has_controller)
  with False show ?thesis by (simp add: EnumerateSDL2_registry)
qed

theorem Enumerate_registry_usable_witness:
  "\<not> init_fails example_sdl \<and>
   devices (fst (EnumerateSDL2 example_build example_conf example_sdl example_memory \<lparr>devices = []\<rparr>)) = [example_device] \<and>
   list_all usable (devices (fst (EnumerateSDL2 example_build example_conf example_sdl example_memory \<lparr>devices = []\<rparr>)))"
proof -
  have ok: "\<not> init_fails example_sdl"
    by (simp add: init_fails_def example_sdl_def)
  have kept: "filter IsProperlyInitialized
       (map (\<lambda>i. fst (SDL2Gamepad_ctor example_build example_conf example_sdl (example_memory i) i))
         (joystick_indices example_sdl)) = [example_device]"
    by code_simp
  have usable: "usable example_device"
    by code_simp
  show ?thesis
    using Enumerate_registry_usable [where s = example_sdl and device_manager = "\<lparr>devices = []\<rparr>"
        and b = example_build and conf = example_conf and mem = example_memory] ok
    by (simp add: kept usable)
qed

subsection \<open>The uploaded effects\<close>

text \<open>Whatever the table and the answers of SDL, the upload loop sends \<^verbatim>\<open>effects[0]\<close> only.\<close>

lemma upload_effects_first_descriptor:
  "set (uploaded_effects (snd (snd (upload_effects s h effects n ids)))) \<subseteq> {effects ! 0}"
proof (induction ids arbitrary: n)
  case Nil
  show ?case by simp
next
  case (Cons old rest)
  obtain ids' kept tr where rest: "upload_effects s h effects (Suc n) rest = (ids', kept, tr)"
    by (cases "upload_effects s h effects (Suc n) rest")
  with Cons.IH [of "Suc n"] have "set (uploaded_effects tr) \<subseteq> {effects ! 0}"
    by simp
  with rest show ?case
    by (simp add: Let_def)
qed

text \<open>
  C1 fails on the code. For a haptic game controller and two effect slots, with every
  upload succeeding, the constructor uploads the descriptor \<^verbatim>\<open>effects[0]\<close> (the sine
  effect) for slot 0 and for slot 1; the triangle descriptor \<^verbatim>\<open>effects[1]\<close> that the
  first loop builds for slot 1 is never uploaded.
\<close>

theorem ctor_uploads_first_descriptor_in_every_slot:
  "uploaded_effects (snd (SDL2Gamepad_ctor example_build example_conf example_sdl (example_memory 0) 0)) =
     [default_effects example_build example_conf ! 0, default_effects example_build example_conf ! 0] \<and>
   effect_type (default_effects example_build example_conf ! 0) = SDL_HAPTIC_SINE \<and>
   effect_type (default_effects example_build example_conf ! 1) = SDL_HAPTIC_TRIANGLE \<and>
   m_effects_id (fst (SDL2Gamepad_ctor example_build example_conf example_sdl (example_memory 0) 0)) = [0, 1] \<and>
   m_haptic (fst (SDL2Gamepad_ctor example_build example_conf example_sdl (example_memory 0) 0)) = Some (Haptic 0)"
  by code_simp

subsection \<open>The input translator: triggers\<close>

lemma sdiv_truncates:
  "(v :: int) sdiv 128 = (if 0 \<le> v then v div 128 else - ((- v) div 128))"
  by (simp add: signed_divide_int_def sgn_if)

text \<open>
  C3. For a logical trigger input (\<open>PAD_L2\<close> or \<open>PAD_R2\<close>, no analog key, inside the
  binding table) and the raw value \<open>v\<close> of the bound axis, \<open>GetInput\<close> returns \<open>v / 128\<close>
  truncated toward zero when \<open>v\<close> is strictly above the dead zone and 0 otherwise; the
  result does not depend on the sensibility; a raw value equal to the dead zone \<open>D\<close>
  gives 0 and a raw value \<open>D + 1\<close> gives \<open>(D + 1) / 128\<close>.
\<close>

theorem GetInput_trigger:
  assumes "input < length (m_bindings d)"
    and "\<not> IsAnalogKey b input"
    and "input = PAD_L2 b \<or> input = PAD_R2 b"
  shows "GetInput b conf s d input =
      Some (let v = raw_axis s d input
            in if v > m_deadzone d
               then (if 0 \<le> v then v div 128 else - ((- v) div 128))
               else 0) \<and>
    GetInput b (conf\<lparr>get_sensibility := sensibility\<rparr>) s d input = GetInput b conf s d input \<and>
    (raw_axis s d input = m_deadzone d
       \<longrightarrow> GetInput b conf s d input = Some 0) \<and>
    (raw_axis s d input = m_deadzone d + 1
       \<longrightarrow> GetInput b conf s d input =
            Some (if 0 \<le> m_deadzone d + 1 then (m_deadzone d + 1) div 128
                  else - ((- (m_deadzone d + 1)) div 128)))"
  using assms by (auto simp: GetInput_def raw_axis_def Let_def sdiv_truncates)

theorem GetInput_trigger_witness:
  "0 < length (m_bindings example_device) \<and>
   \<not> IsAnalogKey example_build 0 \<and>
   0 = PAD_L2 example_build \<and>
   GetInput example_build example_conf
     (example_sdl\<lparr>SDL_GameControllerGetAxis := (\<lambda>c axis. 1501)\<rparr>) example_device 0 = Some 11 \<and>
   GetInput example_build example_conf
     (example_sdl\<lparr>SDL_GameControllerGetAxis := (\<lambda>c axis. 1500)\<rparr>) example_device 0 = Some 0 \<and>
   GetInput example_build example_conf
     (example_sdl\<lparr>SDL_GameControllerGetAxis := (\<lambda>c axis. 32767)\<rparr>) example_device 0 = Some 255"
proof -
  have len: "0 < length (m_bindings example_device)"
    and dz: "m_deadzone example_device = 1500"
    and c: "m_controller example_device = Some (GameController 0)"
    by code_simp+
  have key: "\<not> IsAnalogKey example_build 0" "0 = PAD_L2 example_build"
    by (simp_all add: example_build_def)
  show ?thesis
    using GetInput_trigger [where input = 0 and d = example_device and b = example_build
          and conf = example_conf and sensibility = 100
          and s = "example_sdl\<lparr>SDL_GameControllerGetAxis := (\<lambda>c axis. 1501)\<rparr>"]
      GetInput_trigger [where input = 0 and d = example_device and b = example_build
          and conf = example_conf and sensibility = 100
          and s = "example_sdl\<lparr>SDL_GameControllerGetAxis := (\<lambda>c axis. 1500)\<rparr>"]
      GetInput_trigger [where input = 0 and d = example_device and b = example_build
          and conf = example_conf and sensibility = 100
          and s = "example_sdl\<lparr>SDL_GameControllerGetAxis := (\<lambda>c axis. 32767)\<rparr>"]
      len key
    by (simp add: dz raw_axis_def)
qed

subsection \<open>The input translator: rounding\<close>

lemma bitlen_lower_rat:
  assumes "0 < a"
  shows "(2 :: rat) powi (bitlen a - 1) \<le> of_int a"
proof -
  have "1 \<le> bitlen a"
    using assms bitlen_eq_zero_iff [of a] bitlen_nonneg [of a] by linarith
  then have e: "(2 :: rat) powi (bitlen a - 1) = 2 ^ nat (bitlen a - 1)"
    by (simp add: power_int_nonneg_exp)
  have "(2 :: int) ^ nat (bitlen a - 1) \<le> a"
    using bitlen_bounds [OF assms] by simp
  then have "(of_int ((2 :: int) ^ nat (bitlen a - 1)) :: rat) \<le> of_int a"
    by (simp only: of_int_le_iff)
  then show ?thesis by (simp add: e)
qed

lemma bitlen_upper_rat:
  assumes "0 < a"
  shows "(of_int a :: rat) < 2 powi (bitlen a)"
proof -
  have e: "(2 :: rat) powi (bitlen a) = 2 ^ nat (bitlen a)"
    by (simp add: power_int_nonneg_exp bitlen_nonneg)
  have "a < (2 :: int) ^ nat (bitlen a)"
    using bitlen_bounds [OF assms] by simp
  then have "(of_int a :: rat) < of_int ((2 :: int) ^ nat (bitlen a))"
    by (simp only: of_int_less_iff)
  then show ?thesis by (simp add: e)
qed

text \<open>\<open>ilog2\<close> is the binade: the exponent of the largest power of two that is at most \<open>\<bar>x\<bar>\<close>.\<close>

lemma ilog2_bounds:
  assumes "x \<noteq> 0"
  shows "2 powi ilog2 x \<le> \<bar>x\<bar> \<and> \<bar>x\<bar> < 2 powi (ilog2 x + 1)"
proof -
  obtain a b where q: "quotient_of \<bar>x\<bar> = (a, b)"
    by (cases "quotient_of \<bar>x\<bar>")
  have b: "0 < b"
    using q by (rule quotient_of_denom_pos)
  have x: "\<bar>x\<bar> = of_int a / of_int b"
    using q by (rule quotient_of_div)
  have "0 < \<bar>x\<bar>"
    using assms by simp
  then have a: "0 < a"
    using b by (simp add: x zero_less_divide_iff)
  define e where "e = bitlen a - bitlen b"
  have upper: "\<bar>x\<bar> < 2 powi (e + 1)"
  proof -
    have "of_int a / of_int b < (2 :: rat) powi (bitlen a) / 2 powi (bitlen b - 1)"
      using a b bitlen_upper_rat [OF a] bitlen_lower_rat [OF b]
      by (intro frac_less) simp_all
    also have "\<dots> = 2 powi (bitlen a - (bitlen b - 1))"
      by (rule power_int_diff [symmetric]) simp
    also have "bitlen a - (bitlen b - 1) = e + 1"
      by (simp add: e_def)
    finally show ?thesis by (simp add: x)
  qed
  have lower: "2 powi (e - 1) < \<bar>x\<bar>"
  proof -
    have "(2 :: rat) powi (bitlen a - 1) / 2 powi (bitlen b) < of_int a / of_int b"
      using a b bitlen_lower_rat [OF a] bitlen_upper_rat [OF b]
      by (intro frac_less2) simp_all
    moreover have "(2 :: rat) powi (bitlen a - 1) / 2 powi (bitlen b) = 2 powi (bitlen a - 1 - bitlen b)"
      by (rule power_int_diff [symmetric]) simp
    moreover have "bitlen a - 1 - bitlen b = e - 1"
      by (simp add: e_def)
    ultimately show ?thesis by (simp add: x)
  qed
  have il: "ilog2 x = (if 2 powi e \<le> \<bar>x\<bar> then e else e - 1)"
    by (simp add: ilog2_def q e_def Let_def)
  show ?thesis
  proof (cases "2 powi e \<le> \<bar>x\<bar>")
    case True
    with upper il show ?thesis by simp
  next
    case False
    with lower il show ?thesis by simp
  qed
qed

lemma round_half_even_error: "\<bar>of_int (round_half_even q) - q\<bar> \<le> 1 / 2"
proof -
  have "of_int \<lfloor>q\<rfloor> \<le> q" and "q < of_int \<lfloor>q\<rfloor> + 1"
    by linarith+
  then show ?thesis
    by (auto simp: round_half_even_def Let_def abs_le_iff)
qed

lemma round_half_even_of_int: "round_half_even (of_int n) = n"
  by (simp add: round_half_even_def)


text \<open>
  Rounding to \<open>p\<close> bits has a relative error of at most \<open>2 ^ - p\<close>, and leaves an
  integer of fewer than \<open>p\<close> bits as it is.
\<close>

lemma round_to_precision_error: "\<bar>round_to_precision p x - x\<bar> \<le> \<bar>x\<bar> / 2 ^ p"
proof (cases "x = 0")
  case True
  then show ?thesis by (simp add: round_to_precision_def)
next
  case False
  define u where "u = (2 :: rat) powi (ilog2 x - int p + 1)"
  have u: "0 < u"
    by (simp add: u_def)
  have r: "round_to_precision p x = of_int (round_half_even (x / u)) * u"
    using False by (simp add: round_to_precision_def u_def Let_def)
  have "of_int (round_half_even (x / u)) * u - x = (of_int (round_half_even (x / u)) - x / u) * u"
    using u by (simp add: algebra_simps)
  then have "\<bar>round_to_precision p x - x\<bar> = \<bar>of_int (round_half_even (x / u)) - x / u\<bar> * u"
    using u by (simp add: r abs_mult)
  also have "\<dots> \<le> 1 / 2 * u"
    using round_half_even_error [of "x / u"] u by (intro mult_right_mono) simp_all
  also have "1 / 2 * u = 2 powi ilog2 x / 2 ^ p"
  proof -
    have "u = 2 powi (ilog2 x + 1 - int p)"
      by (simp add: u_def algebra_simps)
    also have "\<dots> = 2 powi (ilog2 x + 1) / 2 powi (int p)"
      by (rule power_int_diff) simp
    also have "(2 :: rat) powi (ilog2 x + 1) = 2 powi ilog2 x * 2"
      by (rule power_int_add_1) simp
    finally show ?thesis by simp
  qed
  also have "\<dots> \<le> \<bar>x\<bar> / 2 ^ p"
    using ilog2_bounds [OF False] by (intro divide_right_mono) simp_all
  finally show ?thesis .
qed

lemma round_to_precision_abs_le: "\<bar>round_to_precision p x\<bar> \<le> \<bar>x\<bar> * (1 + 1 / 2 ^ p)"
proof -
  have "\<bar>round_to_precision p x\<bar> \<le> \<bar>x\<bar> + \<bar>round_to_precision p x - x\<bar>"
    by linarith
  also have "\<dots> \<le> \<bar>x\<bar> + \<bar>x\<bar> / 2 ^ p"
    using round_to_precision_error [of p x] by simp
  also have "\<dots> = \<bar>x\<bar> * (1 + 1 / 2 ^ p)"
    by (simp add: algebra_simps)
  finally show ?thesis .
qed

lemma round_to_precision_of_int:
  assumes "\<bar>n\<bar> < 2 ^ p"
  shows "round_to_precision p (of_int n) = of_int n"
proof (cases "n = 0")
  case True
  then show ?thesis by (simp add: round_to_precision_def)
next
  case False
  define x :: rat where "x = of_int n"
  have x0: "x \<noteq> 0"
    using False by (simp add: x_def)
  have "\<bar>x\<bar> < 2 ^ p"
  proof -
    have "(of_int \<bar>n\<bar> :: rat) < of_int (2 ^ p)"
      using assms by (simp only: of_int_less_iff)
    then show ?thesis by (simp add: x_def)
  qed
  with ilog2_bounds [OF x0] have lt: "(2 :: rat) powi ilog2 x < 2 powi (int p)"
    by simp
  have e: "ilog2 x < int p"
  proof (rule ccontr)
    assume "\<not> ilog2 x < int p"
    then have "int p \<le> ilog2 x" by simp
    then have "(2 :: rat) powi (int p) \<le> 2 powi ilog2 x"
      by (intro power_int_increasing) simp_all
    with lt show False by simp
  qed
  define m where "m = nat (int p - 1 - ilog2 x)"
  have m: "ilog2 x - int p + 1 = - int m"
    using e by (simp add: m_def)
  have u: "(2 :: rat) powi (ilog2 x - int p + 1) = 1 / 2 ^ m"
    by (simp add: m power_int_minus_divide)
  have "x / (1 / 2 ^ m) = of_int (n * 2 ^ m)"
    by (simp add: x_def)
  then have "round_half_even (x / (1 / 2 ^ m)) = n * 2 ^ m"
    by (simp only: round_half_even_of_int)
  then have "round_to_precision p x = of_int (n * 2 ^ m) * (1 / 2 ^ m)"
    using x0 by (simp add: round_to_precision_def Let_def u)
  also have "\<dots> = x"
    by (simp add: x_def)
  finally show ?thesis by (simp add: x_def)
qed

lemma truncate_toward_zero_abs_le: "\<bar>of_int (truncate_toward_zero x) :: rat\<bar> \<le> \<bar>x\<bar>"
proof (cases "0 \<le> x")
  case True
  then have "0 \<le> \<lfloor>x\<rfloor>" by simp
  moreover have "of_int \<lfloor>x\<rfloor> \<le> x" by simp
  ultimately show ?thesis using True by (simp add: truncate_toward_zero_def)
next
  case False
  then have "\<lceil>x\<rceil> \<le> 0" by (simp add: ceiling_le_zero)
  moreover have "x \<le> of_int \<lceil>x\<rceil>" by simp
  ultimately show ?thesis using False by (simp add: truncate_toward_zero_def)
qed


lemma truncate_toward_zero_error: "\<bar>of_int (truncate_toward_zero x) - x\<bar> < (1 :: rat)"
proof (cases "0 \<le> x")
  case True
  have "of_int \<lfloor>x\<rfloor> \<le> x" and "x < of_int \<lfloor>x\<rfloor> + 1"
    by linarith+
  then show ?thesis using True by (simp add: truncate_toward_zero_def abs_less_iff)
next
  case False
  have "x \<le> of_int \<lceil>x\<rceil>" and "of_int \<lceil>x\<rceil> < x + 1"
    by linarith+
  then show ?thesis using False by (simp add: truncate_toward_zero_def abs_less_iff)
qed

lemma abs_le_from_close:
  fixes x y e :: rat
  assumes "\<bar>y - x\<bar> \<le> x * e" and "0 \<le> x"
  shows "\<bar>y\<bar> \<le> x * (1 + e)"
proof -
  have "\<bar>y\<bar> \<le> x + \<bar>y - x\<bar>"
    using assms(2) by linarith
  also have "\<dots> \<le> x + x * e"
    using assms(1) by simp
  also have "\<dots> = x * (1 + e)"
    by (simp add: distrib_left)
  finally show ?thesis .
qed

lemma rounding_slack:
  "(1 + ((1 + 1 / 2 ^ 53) * (1 / 2 ^ 24) + 1 / 2 ^ 53)) * (1 / 2 ^ 24)
     + ((1 + 1 / 2 ^ 53) * (1 / 2 ^ 24) + 1 / 2 ^ 53) \<le> (1 / 2 ^ 22 :: rat)"
  by simp

text \<open>The float \<open>k\<close> is the exact factor \<open>sensibility / 100\<close> up to two roundings.\<close>

lemma sensibility_factor_close:
  assumes "0 \<le> get_sensibility conf" and "get_sensibility conf \<le> 10000"
  shows "\<bar>sensibility_factor conf - of_int (get_sensibility conf) / 100\<bar>
           \<le> of_int (get_sensibility conf) / 100 * ((1 + 1 / 2 ^ 53) * (1 / 2 ^ 24) + 1 / 2 ^ 53)"
proof -
  define k0 :: rat where "k0 = of_int (get_sensibility conf) / 100"
  have k0: "0 \<le> k0"
    using assms(1) by (simp add: k0_def)
  have "\<bar>get_sensibility conf\<bar> < 2 ^ 53"
    using assms by simp
  then have exact: "to_double (of_int (get_sensibility conf)) = of_int (get_sensibility conf)"
    by (simp add: to_double_def round_to_precision_of_int)
  have "\<bar>to_double k0 - k0\<bar> \<le> \<bar>k0\<bar> / 2 ^ 53"
    unfolding to_double_def by (rule round_to_precision_error)
  then have kd: "\<bar>to_double k0 - k0\<bar> \<le> k0 * (1 / 2 ^ 53)"
    using k0 by simp
  then have kd_abs: "\<bar>to_double k0\<bar> \<le> k0 * (1 + 1 / 2 ^ 53)"
    using k0 by (rule abs_le_from_close)
  have "\<bar>to_float (to_double k0) - to_double k0\<bar> \<le> \<bar>to_double k0\<bar> / 2 ^ 24"
    unfolding to_float_def by (rule round_to_precision_error)
  also have "\<dots> = \<bar>to_double k0\<bar> * (1 / 2 ^ 24)"
    by simp
  also have "\<dots> \<le> k0 * (1 + 1 / 2 ^ 53) * (1 / 2 ^ 24)"
    using kd_abs by (intro mult_right_mono) simp_all
  finally have kf: "\<bar>to_float (to_double k0) - to_double k0\<bar> \<le> k0 * (1 + 1 / 2 ^ 53) * (1 / 2 ^ 24)" .
  have "\<bar>to_float (to_double k0) - k0\<bar>
      \<le> \<bar>to_float (to_double k0) - to_double k0\<bar> + \<bar>to_double k0 - k0\<bar>"
    by linarith
  also have "\<dots> \<le> k0 * (1 + 1 / 2 ^ 53) * (1 / 2 ^ 24) + k0 * (1 / 2 ^ 53)"
    using kf kd by (rule add_mono)
  also have "\<dots> = k0 * ((1 + 1 / 2 ^ 53) * (1 / 2 ^ 24) + 1 / 2 ^ 53)"
    by (simp add: algebra_simps)
  finally show ?thesis
    by (simp only: sensibility_factor_def exact k0_def)
qed

text \<open>
  \<^verbatim>\<open>value *= k\<close> is defined for a 16-bit axis value and a sensibility of at most 10000,
  and the new value is the exact product \<open>value * sensibility / 100\<close> up to the three
  roundings and the truncation.
\<close>

lemma scale_by_close:
  assumes "0 \<le> get_sensibility conf" and "get_sensibility conf \<le> 10000" and "\<bar>v\<bar> \<le> 32768"
  shows "\<exists>t. scale_by (sensibility_factor conf) v = Some t \<and> c_abs t = Some \<bar>t\<bar> \<and>
           (of_int \<bar>t\<bar> :: rat) < of_int \<bar>v\<bar> * of_int (get_sensibility conf) / 100 + 1 \<and>
           \<bar>of_int t - of_int v * of_int (get_sensibility conf) / 100 :: rat\<bar> < 2"
proof -
  define k where "k = sensibility_factor conf"
  define k0 :: rat where "k0 = of_int (get_sensibility conf) / 100"
  define e1 :: rat where "e1 = (1 + 1 / 2 ^ 53) * (1 / 2 ^ 24) + 1 / 2 ^ 53"
  define A :: rat where "A = of_int \<bar>v\<bar> * k0"
  define pr where "pr = to_float (of_int v * k)"
  define t where "t = truncate_toward_zero pr"
  have k0: "0 \<le> k0" "k0 \<le> 100"
    using assms(1,2) by (simp_all add: k0_def)
  have v: "(0 :: rat) \<le> of_int \<bar>v\<bar>" "(of_int \<bar>v\<bar> :: rat) \<le> 32768"
    using assms(3) by simp_all
  have A: "0 \<le> A" "A \<le> 3276800"
  proof -
    show "0 \<le> A" using k0(1) v(1) by (simp add: A_def)
    have "of_int \<bar>v\<bar> * k0 \<le> 32768 * (100 :: rat)"
      using v k0 by (intro mult_mono) simp_all
    then show "A \<le> 3276800" by (simp add: A_def)
  qed
  have "\<bar>v\<bar> < 2 ^ 24"
    using assms(3) by simp
  then have fv: "to_float (of_int v) = of_int v"
    by (simp add: to_float_def round_to_precision_of_int)
  have k: "\<bar>k - k0\<bar> \<le> k0 * e1"
    unfolding k_def k0_def e1_def using assms(1,2) by (rule sensibility_factor_close)
  then have k_abs: "\<bar>k\<bar> \<le> k0 * (1 + e1)"
    using k0(1) by (rule abs_le_from_close)
  have vk: "\<bar>of_int v * k - of_int v * k0\<bar> \<le> A * e1"
  proof -
    have "\<bar>of_int v * k - of_int v * k0\<bar> = of_int \<bar>v\<bar> * \<bar>k - k0\<bar>"
      by (simp add: abs_mult flip: right_diff_distrib)
    also have "\<dots> \<le> of_int \<bar>v\<bar> * (k0 * e1)"
      using k v(1) by (rule mult_left_mono)
    finally show ?thesis by (simp add: A_def mult.assoc)
  qed
  have vk_abs: "\<bar>of_int v * k\<bar> \<le> A * (1 + e1)"
  proof -
    have "\<bar>of_int v * k\<bar> = of_int \<bar>v\<bar> * \<bar>k\<bar>"
      by (simp add: abs_mult)
    also have "\<dots> \<le> of_int \<bar>v\<bar> * (k0 * (1 + e1))"
      using k_abs v(1) by (rule mult_left_mono)
    finally show ?thesis by (simp add: A_def mult.assoc)
  qed
  have "\<bar>pr - of_int v * k\<bar> \<le> \<bar>of_int v * k\<bar> / 2 ^ 24"
    unfolding pr_def to_float_def by (rule round_to_precision_error)
  also have "\<dots> = \<bar>of_int v * k\<bar> * (1 / 2 ^ 24)"
    by simp
  also have "\<dots> \<le> A * (1 + e1) * (1 / 2 ^ 24)"
    using vk_abs by (intro mult_right_mono) simp_all
  finally have pr_vk: "\<bar>pr - of_int v * k\<bar> \<le> A * (1 + e1) * (1 / 2 ^ 24)" .
  have "\<bar>pr - of_int v * k0\<bar> \<le> \<bar>pr - of_int v * k\<bar> + \<bar>of_int v * k - of_int v * k0\<bar>"
    by linarith
  also have "\<dots> \<le> A * (1 + e1) * (1 / 2 ^ 24) + A * e1"
    using pr_vk vk by (rule add_mono)
  also have "\<dots> = A * ((1 + e1) * (1 / 2 ^ 24) + e1)"
    by (simp add: algebra_simps)
  also have "\<dots> \<le> A * (1 / 2 ^ 22)"
    using A(1) rounding_slack unfolding e1_def by (rule mult_left_mono [rotated])
  also have "\<dots> < 1"
    using A(2) by simp
  finally have pr: "\<bar>pr - of_int v * k0\<bar> < 1" .
  have "\<bar>of_int v * k0\<bar> = A"
    using k0(1) by (simp add: A_def abs_mult)
  with pr have pr_abs: "\<bar>pr\<bar> < A + 1"
    by linarith
  have "\<bar>of_int t :: rat\<bar> \<le> \<bar>pr\<bar>"
    unfolding t_def by (rule truncate_toward_zero_abs_le)
  with pr_abs have close: "(of_int \<bar>t\<bar> :: rat) < A + 1"
    by simp
  have "\<bar>of_int t - pr\<bar> < 1"
    unfolding t_def by (rule truncate_toward_zero_error)
  with pr have near: "\<bar>of_int t - of_int v * k0\<bar> < 2"
    by linarith
  from close A(2) have "(of_int \<bar>t\<bar> :: rat) < of_int 3276801"
    by simp
  then have small: "\<bar>t\<bar> < 3276801"
    by (simp only: of_int_less_iff)
  have "- (2 ^ 31) \<le> t \<and> t < 2 ^ 31"
    using small by (simp add: abs_less_iff)
  then have "float_to_int pr = Some t"
    by (simp add: float_to_int_def t_def [symmetric] Let_def)
  then have "scale_by (sensibility_factor conf) v = Some t"
    by (simp add: scale_by_def fv pr_def k_def)
  moreover have "c_abs t = Some \<bar>t\<bar>"
    using small by (auto simp: c_abs_def)
  moreover have "(of_int \<bar>t\<bar> :: rat) < of_int \<bar>v\<bar> * of_int (get_sensibility conf) / 100 + 1"
    using close by (simp add: A_def k0_def)
  moreover have "\<bar>of_int t - of_int v * of_int (get_sensibility conf) / 100 :: rat\<bar> < 2"
    using near by (simp add: k0_def)
  ultimately show ?thesis by blast
qed

lemma scale_by_zero: "scale_by k 0 = Some 0"
  by (simp add: scale_by_def to_float_def round_to_precision_def float_to_int_def
      truncate_toward_zero_def)

lemma sint_axis_range: "\<bar>sint (w :: 16 word)\<bar> \<le> 32768"
  using sint_ge [of w] sint_lt [of w] by simp

lemma GetInput_analog:
  assumes "input < length (m_bindings d)" and "IsAnalogKey b input"
    and "scale_by (sensibility_factor conf)
           (sint (SDL_GameControllerGetAxis s (m_controller d) (m_bindings d ! input))) = Some t"
    and "c_abs t = Some \<bar>t\<bar>"
  shows "GetInput b conf s d input = Some (if \<bar>t\<bar> > m_deadzone d then t else 0)"
  using assms by (simp add: GetInput_def Let_def)

subsection \<open>The input translator: analog sticks\<close>

lemma magnitude_le_ceiling:
  fixes k0 :: rat
  assumes "of_int \<bar>t\<bar> < of_int \<bar>v\<bar> * k0 + 1" and "\<bar>v\<bar> \<le> M" and "0 \<le> k0"
  shows "\<bar>t\<bar> \<le> \<lceil>of_int M * k0\<rceil>"
proof -
  have "(of_int \<bar>v\<bar> :: rat) \<le> of_int M"
    using assms(2) by (simp only: of_int_le_iff)
  then have "of_int \<bar>v\<bar> * k0 \<le> of_int M * k0"
    using assms(3) by (rule mult_right_mono)
  also have "\<dots> \<le> of_int \<lceil>of_int M * k0\<rceil>"
    by (rule le_of_int_ceiling)
  finally have "(of_int \<bar>t\<bar> :: rat) < of_int (\<lceil>of_int M * k0\<rceil> + 1)"
    using assms(1) by simp
  then have "\<bar>t\<bar> < \<lceil>of_int M * k0\<rceil> + 1"
    by (simp only: of_int_less_iff)
  then show ?thesis by simp
qed

text \<open>
  C2. For an analog-stick input (inside the binding table) \<open>GetInput\<close> reads the raw
  signed axis value \<open>v\<close> under the bound axis code and computes \<open>v'\<close>, the \<^verbatim>\<open>int\<close> that
  \<^verbatim>\<open>value *= k\<close> leaves, with \<open>k\<close> the float \<^verbatim>\<open>sensibility / 100.0\<close>. Wherever that
  computation is defined, the result is \<open>v'\<close> when \<open>\<bar>v'\<bar>\<close> is strictly above the dead
  zone and 0 otherwise. For a sensibility from 0 to 10000 the computation is defined,
  and \<open>v'\<close> is less than 2 away from the exact product \<open>v * sensibility / 100\<close>; the
  result is 0 when \<open>\<bar>v'\<bar>\<close> equals the dead zone, and also when the exact product
  \<open>\<bar>v\<bar> * sensibility / 100\<close> equals the dead zone.
\<close>

theorem GetInput_stick:
  assumes "input < length (m_bindings d)" and "IsAnalogKey b input"
  shows "(\<forall>v'. scale_by (sensibility_factor conf) (raw_axis s d input) = Some v' \<and> v' \<noteq> - (2 ^ 31) \<longrightarrow>
            GetInput b conf s d input = Some (if \<bar>v'\<bar> > m_deadzone d then v' else 0)) \<and>
    (0 \<le> get_sensibility conf \<and> get_sensibility conf \<le> 10000 \<longrightarrow>
       (\<exists>v'. scale_by (sensibility_factor conf) (raw_axis s d input) = Some v' \<and>
          \<bar>of_int v' - of_int (raw_axis s d input) * of_int (get_sensibility conf) / 100 :: rat\<bar> < 2 \<and>
          GetInput b conf s d input = Some (if \<bar>v'\<bar> > m_deadzone d then v' else 0) \<and>
          (\<bar>v'\<bar> = m_deadzone d \<longrightarrow> GetInput b conf s d input = Some 0) \<and>
          (\<bar>raw_axis s d input\<bar> * get_sensibility conf = 100 * m_deadzone d
             \<longrightarrow> GetInput b conf s d input = Some 0)))"
proof (intro conjI allI impI)
  fix v'
  assume "scale_by (sensibility_factor conf) (raw_axis s d input) = Some v' \<and> v' \<noteq> - (2 ^ 31)"
  then have "scale_by (sensibility_factor conf)
        (sint (SDL_GameControllerGetAxis s (m_controller d) (m_bindings d ! input))) = Some v'"
    and "c_abs v' = Some \<bar>v'\<bar>"
    by (simp_all add: raw_axis_def c_abs_def)
  with assms show "GetInput b conf s d input = Some (if \<bar>v'\<bar> > m_deadzone d then v' else 0)"
    by (rule GetInput_analog)
next
  assume sens: "0 \<le> get_sensibility conf \<and> get_sensibility conf \<le> 10000"
  then have "0 \<le> get_sensibility conf" and "get_sensibility conf \<le> 10000"
    by simp_all
  moreover have "\<bar>raw_axis s d input\<bar> \<le> 32768"
    unfolding raw_axis_def by (rule sint_axis_range)
  ultimately obtain t where t: "scale_by (sensibility_factor conf) (raw_axis s d input) = Some t"
    and abs: "c_abs t = Some \<bar>t\<bar>"
    and close: "(of_int \<bar>t\<bar> :: rat)
                  < of_int \<bar>raw_axis s d input\<bar> * of_int (get_sensibility conf) / 100 + 1"
    and near: "\<bar>of_int t - of_int (raw_axis s d input) * of_int (get_sensibility conf) / 100 :: rat\<bar> < 2"
    using scale_by_close [of conf "raw_axis s d input"] by blast
  have result: "GetInput b conf s d input = Some (if \<bar>t\<bar> > m_deadzone d then t else 0)"
    using assms t abs unfolding raw_axis_def by (rule GetInput_analog)
  have exact: "GetInput b conf s d input = Some 0"
    if eq: "\<bar>raw_axis s d input\<bar> * get_sensibility conf = 100 * m_deadzone d"
  proof -
    have "(of_int (\<bar>raw_axis s d input\<bar> * get_sensibility conf) :: rat) = of_int (100 * m_deadzone d)"
      by (simp only: eq)
    then have "(of_int \<bar>raw_axis s d input\<bar> * of_int (get_sensibility conf) / 100 :: rat)
        = of_int (m_deadzone d)"
      by simp
    with close have "(of_int \<bar>t\<bar> :: rat) < of_int (m_deadzone d + 1)"
      by simp
    then have "\<bar>t\<bar> < m_deadzone d + 1"
      by (simp only: of_int_less_iff)
    then show ?thesis by (simp add: result)
  qed
  show "\<exists>v'. scale_by (sensibility_factor conf) (raw_axis s d input) = Some v' \<and>
          \<bar>of_int v' - of_int (raw_axis s d input) * of_int (get_sensibility conf) / 100 :: rat\<bar> < 2 \<and>
          GetInput b conf s d input = Some (if \<bar>v'\<bar> > m_deadzone d then v' else 0) \<and>
          (\<bar>v'\<bar> = m_deadzone d \<longrightarrow> GetInput b conf s d input = Some 0) \<and>
          (\<bar>raw_axis s d input\<bar> * get_sensibility conf = 100 * m_deadzone d
             \<longrightarrow> GetInput b conf s d input = Some 0)"
    using t near result exact by auto
qed

theorem GetInput_stick_witness:
  "16 < length (m_bindings example_device) \<and>
   IsAnalogKey example_build 16 \<and>
   0 \<le> get_sensibility example_conf \<and> get_sensibility example_conf \<le> 10000 \<and>
   \<bar>raw_axis (example_sdl\<lparr>SDL_GameControllerGetAxis := (\<lambda>c axis. 1500)\<rparr>) example_device 16\<bar>
      * get_sensibility example_conf = 100 * m_deadzone example_device \<and>
   GetInput example_build example_conf
     (example_sdl\<lparr>SDL_GameControllerGetAxis := (\<lambda>c axis. 1500)\<rparr>) example_device 16 = Some 0 \<and>
   scale_by (sensibility_factor (example_conf\<lparr>get_sensibility := 50\<rparr>))
     (raw_axis (example_sdl\<lparr>SDL_GameControllerGetAxis := (\<lambda>c axis. 20000)\<rparr>) example_device 16)
     = Some 10000 \<and>
   GetInput example_build (example_conf\<lparr>get_sensibility := 50\<rparr>)
     (example_sdl\<lparr>SDL_GameControllerGetAxis := (\<lambda>c axis. 20000)\<rparr>) example_device 16 = Some 10000"
proof -
  have len: "16 < length (m_bindings example_device)"
    and dz: "m_deadzone example_device = 1500"
    by code_simp+
  have key: "IsAnalogKey example_build 16"
    by (simp add: example_build_def)
  have sens: "get_sensibility example_conf = 100"
    "get_sensibility (example_conf\<lparr>get_sensibility := 50\<rparr>) = 50"
    by (simp_all add: example_conf_def)
  have raw: "raw_axis (example_sdl\<lparr>SDL_GameControllerGetAxis := (\<lambda>c axis. 1500)\<rparr>) example_device 16 = 1500"
    "raw_axis (example_sdl\<lparr>SDL_GameControllerGetAxis := (\<lambda>c axis. 20000)\<rparr>) example_device 16 = 20000"
    by (simp_all add: raw_axis_def)
  have scaled: "scale_by (sensibility_factor (example_conf\<lparr>get_sensibility := 50\<rparr>)) 20000 = Some 10000"
    by code_simp
  show ?thesis
    using GetInput_stick [where input = 16 and d = example_device and b = example_build
        and conf = example_conf
        and s = "example_sdl\<lparr>SDL_GameControllerGetAxis := (\<lambda>c axis. 1500)\<rparr>"]
      GetInput_stick [where input = 16 and d = example_device and b = example_build
        and conf = "example_conf\<lparr>get_sensibility := 50\<rparr>"
        and s = "example_sdl\<lparr>SDL_GameControllerGetAxis := (\<lambda>c axis. 20000)\<rparr>"]
      len key
    by (auto simp: sens raw dz scaled)
qed

text \<open>
  C4, as the code has it. For an analog-stick input: when the raw axis value is 0 the
  result is 0, for every sensibility and every dead zone. For a sensibility from 0 to
  10000 the result is defined and its magnitude is at most
  \<open>ceil (0x8000 * sensibility / 100)\<close>, and at most \<open>ceil (0x7FFF * sensibility / 100)\<close>
  when the raw axis value is not \<open>- 32768\<close>.
\<close>

theorem GetInput_stick_magnitude:
  assumes "input < length (m_bindings d)" and "IsAnalogKey b input"
  shows "(raw_axis s d input = 0 \<longrightarrow> GetInput b conf s d input = Some 0) \<and>
     (0 \<le> get_sensibility conf \<and> get_sensibility conf \<le> 10000 \<longrightarrow>
        (\<exists>r. GetInput b conf s d input = Some r \<and>
             \<bar>r\<bar> \<le> \<lceil>0x8000 * of_int (get_sensibility conf) / (100 :: rat)\<rceil> \<and>
             (raw_axis s d input \<noteq> - 32768 \<longrightarrow>
                \<bar>r\<bar> \<le> \<lceil>0x7FFF * of_int (get_sensibility conf) / (100 :: rat)\<rceil>)))"
proof (intro conjI impI)
  assume "raw_axis s d input = 0"
  then show "GetInput b conf s d input = Some 0"
    using assms by (simp add: GetInput_def raw_axis_def scale_by_zero c_abs_def)
next
  assume sens: "0 \<le> get_sensibility conf \<and> get_sensibility conf \<le> 10000"
  define k0 :: rat where "k0 = of_int (get_sensibility conf) / 100"
  have k0: "0 \<le> k0"
    using sens by (simp add: k0_def)
  have range: "\<bar>raw_axis s d input\<bar> \<le> 32768"
    unfolding raw_axis_def by (rule sint_axis_range)
  from sens have "0 \<le> get_sensibility conf" and "get_sensibility conf \<le> 10000"
    by simp_all
  from scale_by_close [OF this range]
  obtain t where t: "scale_by (sensibility_factor conf) (raw_axis s d input) = Some t"
    and abs: "c_abs t = Some \<bar>t\<bar>"
    and close: "(of_int \<bar>t\<bar> :: rat) < of_int \<bar>raw_axis s d input\<bar> * k0 + 1"
    unfolding k0_def by auto
  define r where "r = (if \<bar>t\<bar> > m_deadzone d then t else 0)"
  have result: "GetInput b conf s d input = Some r"
    unfolding r_def using assms(1,2) t abs unfolding raw_axis_def by (rule GetInput_analog)
  have r: "\<bar>r\<bar> \<le> \<bar>t\<bar>"
    by (simp add: r_def)
  have "\<bar>t\<bar> \<le> \<lceil>of_int 32768 * k0\<rceil>"
    using close range k0 by (rule magnitude_le_ceiling)
  with r have wide: "\<bar>r\<bar> \<le> \<lceil>0x8000 * of_int (get_sensibility conf) / (100 :: rat)\<rceil>"
    by (simp add: k0_def)
  have narrow: "\<bar>r\<bar> \<le> \<lceil>0x7FFF * of_int (get_sensibility conf) / (100 :: rat)\<rceil>"
    if "raw_axis s d input \<noteq> - 32768"
  proof -
    have "- 32768 \<le> raw_axis s d input" and "raw_axis s d input < 32768"
      using sint_ge [of "SDL_GameControllerGetAxis s (m_controller d) (m_bindings d ! input)"]
        sint_lt [of "SDL_GameControllerGetAxis s (m_controller d) (m_bindings d ! input)"]
      by (simp_all add: raw_axis_def)
    with that have "\<bar>raw_axis s d input\<bar> \<le> 32767"
      by simp
    with close have "\<bar>t\<bar> \<le> \<lceil>of_int 32767 * k0\<rceil>"
      using k0 by (rule magnitude_le_ceiling)
    with r show ?thesis
      by (simp add: k0_def)
  qed
  show "\<exists>r. GetInput b conf s d input = Some r \<and>
             \<bar>r\<bar> \<le> \<lceil>0x8000 * of_int (get_sensibility conf) / (100 :: rat)\<rceil> \<and>
             (raw_axis s d input \<noteq> - 32768 \<longrightarrow>
                \<bar>r\<bar> \<le> \<lceil>0x7FFF * of_int (get_sensibility conf) / (100 :: rat)\<rceil>)"
    using result wide narrow by blast
qed

text \<open>
  The raw axis value \<open>- 32768\<close> at sensibility 100 and dead zone 1500: the result is
  \<open>- 32768\<close>, whose magnitude is above \<open>ceil (0x7FFF * 100 / 100) = 32767\<close>.
\<close>

theorem GetInput_stick_magnitude_counterexample:
  "IsAnalogKey example_build 16 \<and>
   raw_axis example_sdl example_device 16 = - 32768 \<and>
   get_sensibility example_conf = 100 \<and>
   GetInput example_build example_conf example_sdl example_device 16 = Some (- 32768) \<and>
   \<not> \<bar>- 32768\<bar> \<le> \<lceil>0x7FFF * of_int (get_sensibility example_conf) / (100 :: rat)\<rceil>"
  by code_simp


theorem GetInput_stick_magnitude_witness:
  "16 < length (m_bindings example_device) \<and>
   IsAnalogKey example_build 16 \<and>
   raw_axis (example_sdl\<lparr>SDL_GameControllerGetAxis := (\<lambda>c axis. 0)\<rparr>) example_device 16 = 0 \<and>
   GetInput example_build example_conf
     (example_sdl\<lparr>SDL_GameControllerGetAxis := (\<lambda>c axis. 0)\<rparr>) example_device 16 = Some 0 \<and>
   0 \<le> get_sensibility example_conf \<and> get_sensibility example_conf \<le> 10000 \<and>
   (\<exists>r. GetInput example_build example_conf example_sdl example_device 16 = Some r \<and> \<bar>r\<bar> \<le> 32768)"
proof -
  have len: "16 < length (m_bindings example_device)"
    by code_simp
  have key: "IsAnalogKey example_build 16"
    by (simp add: example_build_def)
  have sens: "get_sensibility example_conf = 100"
    by (simp add: example_conf_def)
  have raw: "raw_axis (example_sdl\<lparr>SDL_GameControllerGetAxis := (\<lambda>c axis. 0)\<rparr>) example_device 16 = 0"
    by (simp add: raw_axis_def)
  show ?thesis
    using GetInput_stick_magnitude [where input = 16 and d = example_device and b = example_build
        and conf = example_conf
        and s = "example_sdl\<lparr>SDL_GameControllerGetAxis := (\<lambda>c axis. 0)\<rparr>"]
      GetInput_stick_magnitude [where input = 16 and d = example_device and b = example_build
        and conf = example_conf and s = example_sdl]
      len key
    by (auto simp: sens raw)
qed

text \<open>
  The bound on the sensibility is needed: at sensibility 102404 the float \<open>k\<close> is rounded
  up far enough that the raw value \<open>- 32768\<close> is scaled to a magnitude above
  \<open>ceil (0x8000 * 102404 / 100)\<close>.
\<close>

lemma large_sensibility_exceeds_ceiling:
  "scale_by (sensibility_factor (example_conf\<lparr>get_sensibility := 102404\<rparr>)) (- 32768)
     = Some (- 33555744) \<and>
   \<lceil>0x8000 * of_int 102404 / (100 :: rat)\<rceil> = 33555743"
  by code_simp

end
